theory Spec2Isabelle
  imports Main
begin

section \<open>The WhatsApp voice-note transcriber (main.py)\<close>

text \<open>
  The program is a Flask application with two handlers of interest, \<open>webhook\<close>
  (POST /webhook) and \<open>message_status\<close> (POST /status), three helpers
  (\<open>download_audio\<close>, \<open>transcribe_audio\<close>, \<open>send_whatsapp_message\<close>) and the
  decorator \<open>validate_twilio_request\<close>.

  The embedding is by explicit state passing. The mutable state of a request is the
  file system (the two temporary files live there) together with a trace of the
  outbound calls made so far (HTTP download, speech model, message send). The trace is
  bookkeeping of the model: it is how "the handler invokes X" is stated. The third-party
  libraries (requests, pydub, whisper, the Twilio SDK) and the process environment are
  parameters of the model, collected in the record \<open>services\<close>; each call of a
  library may raise. Writing a file that was opened for writing is taken to succeed.
  Calls of the logger are left out, except the one in the exception handler of
  \<open>download_audio\<close> whose argument reads a local variable that may be unbound.
\<close>

subsection \<open>Exceptions and responses\<close>

text \<open>
  Every exception the code can meet is a subclass of Python's \<open>Exception\<close>, which is
  what the two \<open>except Exception\<close> clauses catch. \<open>LibraryError\<close> stands for any
  exception raised inside a third-party library, \<open>Aborted c\<close> for the
  \<open>HTTPException\<close> that Flask's \<open>abort(c)\<close> raises.
\<close>

datatype exn =
    IndexError
  | ValueError string
  | HTTPError nat
  | UnboundLocalError string
  | FileNotFoundError string
  | LibraryError string
  | Aborted nat

text \<open>
  A response body is either a literal text or \<open>str(e)\<close> for a caught exception
  \<open>e\<close>; the rendering of an exception as text is not modelled further.
\<close>

datatype body = Text string | Str_of exn

type_synonym response = "body \<times> nat"

text \<open>
  What Flask makes of the outcome of a view function: a returned pair carries its own
  status, \<open>abort(c)\<close> becomes status \<open>c\<close>, any other escaping exception is a 500
  produced by the framework.
\<close>

fun http_status :: "exn + response \<Rightarrow> nat" where
  "http_status (Inr (b, s)) = s"
| "http_status (Inl (Aborted c)) = c"
| "http_status (Inl e) = 500"

subsection \<open>Requests, the world, and the external services\<close>

record request =
  url :: string
  headers :: "string \<rightharpoonup> string"
  args :: "string \<rightharpoonup> string"
  form :: "string \<rightharpoonup> string"

text \<open>
  \<open>request.values\<close> combines the query arguments and the form, the arguments first;
  \<open>get(key, default)\<close> never raises.
\<close>

definition req_values :: "request \<Rightarrow> string \<rightharpoonup> string" where
  "req_values req k = (case args req k of Some v \<Rightarrow> Some v | None \<Rightarrow> form req k)"

definition get_or :: "(string \<rightharpoonup> string) \<Rightarrow> string \<Rightarrow> string \<Rightarrow> string" where
  "get_or m k d = (case m k of Some v \<Rightarrow> v | None \<Rightarrow> d)"

datatype call =
    Requests_get string "string option \<times> string option"
  | Model_transcribe string
  | Messages_create string string string

record world =
  fs :: "string \<rightharpoonup> string"
  calls :: "call list"

record http_response =
  status_code :: nat
  content :: string

text \<open>
  A string is the UTF-8 encoding of the Python \<open>str\<close>. The two string operations the
  handlers apply themselves, splitting at the colon and searching for \<open>audio\<close>, look
  for ASCII characters only and so give the same answer on the encoding as on the
  \<open>str\<close>.
\<close>

record services =
  getenv :: "string \<rightharpoonup> string"
  builtin_int :: "string \<Rightarrow> exn + int"
  requests_get :: "string \<Rightarrow> string option \<times> string option \<Rightarrow> exn + http_response"
  from_ogg :: "string \<Rightarrow> exn + string"
  export_wav :: "string \<Rightarrow> exn + string"
  model_transcribe :: "string \<Rightarrow> string option \<Rightarrow> string \<Rightarrow> string \<Rightarrow> exn + string"
  messages_create :: "string \<Rightarrow> string \<Rightarrow> string \<Rightarrow> exn + string"
  validator_validate ::
    "string option \<Rightarrow> string \<Rightarrow> (string \<rightharpoonup> string) \<Rightarrow> string \<Rightarrow> exn + bool"

subsection \<open>The Python built-ins the handlers use\<close>

text \<open>\<open>s.split(sep)\<close> for a one-character separator: never empty.\<close>

fun py_split :: "string \<Rightarrow> char \<Rightarrow> string list" where
  "py_split [] sep = [[]]"
| "py_split (c # cs) sep =
     (if c = sep then [] # py_split cs sep
      else (case py_split cs sep of
              [] \<Rightarrow> [[c]]
            | p # ps \<Rightarrow> (c # p) # ps))"

text \<open>\<open>xs[i]\<close> for a non-negative index: IndexError out of range.\<close>

definition py_index :: "'a list \<Rightarrow> nat \<Rightarrow> exn + 'a" where
  "py_index xs i = (if i < length xs then Inr (xs ! i) else Inl IndexError)"

text \<open>\<open>sub in s\<close> on strings: \<open>sub\<close> occurs as a contiguous piece of \<open>s\<close>.\<close>

fun py_in :: "string \<Rightarrow> string \<Rightarrow> bool" where
  "py_in sub [] = (sub = [])"
| "py_in sub (c # cs) = (take (length sub) (c # cs) = sub \<or> py_in sub cs)"

text \<open>
  \<open>int(s)\<close> on a string is not defined here. Which strings the interpreter accepts
  depends on its Unicode tables (spaces and decimal digits of every script) and on its
  limit for the number of digits, so the function is the field \<open>builtin_int\<close> of
  \<open>services\<close>: every theorem below holds for whatever \<open>int\<close> does.
\<close>

text \<open>An f-string field \<open>{os.getenv(k)}\<close>: an unset variable prints as \<open>None\<close>.\<close>

definition fmt_env :: "string option \<Rightarrow> string" where
  "fmt_env v = (case v of None \<Rightarrow> ''None'' | Some s \<Rightarrow> s)"

text \<open>\<open>os.remove(path)\<close>.\<close>

definition os_remove :: "string \<Rightarrow> world \<Rightarrow> exn + world" where
  "os_remove path w =
     (if fs w path = None then Inl (FileNotFoundError path)
      else Inr (w\<lparr>fs := (fs w)(path := None)\<rparr>))"

text \<open>\<open>response.raise_for_status()\<close> of requests: statuses 400 to 599 raise.\<close>

definition raise_for_status :: "http_response \<Rightarrow> exn + unit" where
  "raise_for_status r =
     (if 400 \<le> status_code r \<and> status_code r < 600 then Inl (HTTPError (status_code r))
      else Inr ())"

text \<open>Reading a file by its path, as the decoders do.\<close>

definition read_file :: "world \<Rightarrow> string \<Rightarrow> exn + string" where
  "read_file w path =
     (case fs w path of None \<Rightarrow> Inl (FileNotFoundError path) | Some d \<Rightarrow> Inr d)"

subsection \<open>The helpers\<close>

text \<open>
  \<open>download_audio(url)\<close>. The whole body is inside \<open>try\<close>; the handler logs and
  re-raises. Its second log line reads the local \<open>response\<close>: when
  \<open>requests.get\<close> itself raised, that name is unbound, so the handler raises
  UnboundLocalError in place of the original exception. The function deletes nothing.
\<close>

definition download_audio :: "services \<Rightarrow> string \<Rightarrow> world \<Rightarrow> (exn + string) \<times> world" where
  "download_audio sv u w =
     (let auth = (getenv sv ''TWILIO_ACCOUNT_SID'', getenv sv ''TWILIO_AUTH_TOKEN'');
          w1 = w\<lparr>calls := calls w @ [Requests_get u auth]\<rparr>
      in case requests_get sv u auth of
           Inl e \<Rightarrow> (Inl (UnboundLocalError ''response''), w1)
         | Inr response \<Rightarrow>
             (case raise_for_status response of
                Inl e \<Rightarrow> (Inl e, w1)
              | Inr _ \<Rightarrow>
                  (let w2 = w1\<lparr>fs := (fs w1)(''temp_audio.ogg'' \<mapsto> content response)\<rparr>
                   in case read_file w2 ''temp_audio.ogg'' of
                        Inl e \<Rightarrow> (Inl e, w2)
                      | Inr ogg \<Rightarrow>
                          (case from_ogg sv ogg of
                             Inl e \<Rightarrow> (Inl e, w2)
                           | Inr audio \<Rightarrow>
                               (case export_wav sv audio of
                                  Inl e \<Rightarrow> (Inl e, w2)
                                | Inr wav \<Rightarrow>
                                    (Inr ''temp_audio.wav'',
                                     w2\<lparr>fs := (fs w2)(''temp_audio.wav'' \<mapsto> wav)\<rparr>))))))"

text \<open>
  \<open>transcribe_audio(file_path)\<close>: the model is called with the language \<open>he\<close> and
  the task \<open>transcribe\<close>; the service returns the \<open>text\<close> entry of its result.
\<close>

definition transcribe_audio :: "services \<Rightarrow> string \<Rightarrow> world \<Rightarrow> (exn + string) \<times> world" where
  "transcribe_audio sv file_path w =
     (model_transcribe sv file_path (fs w file_path) ''he'' ''transcribe'',
      w\<lparr>calls := calls w @ [Model_transcribe file_path]\<rparr>)"

text \<open>\<open>send_whatsapp_message(message, to_number)\<close>; the webhook does not call it.\<close>

definition send_whatsapp_message ::
    "services \<Rightarrow> string \<Rightarrow> string \<Rightarrow> world \<Rightarrow> (exn + unit) \<times> world" where
  "send_whatsapp_message sv message to_number w =
     (let from_number = ''whatsapp:'' @ fmt_env (getenv sv ''TWILIO_WHATSAPP_NUMBER'');
          to_number' = ''whatsapp:'' @ to_number;
          w1 = w\<lparr>calls := calls w @ [Messages_create message from_number to_number']\<rparr>
      in case messages_create sv message from_number to_number' of
           Inl e \<Rightarrow> (Inl e, w1)
         | Inr sid \<Rightarrow> (Inr (), w1))"

subsection \<open>The signature guard\<close>

text \<open>
  \<open>validate_twilio_request(f)\<close> wraps a view function. The signature is read with an
  empty default, so a missing header is passed to the validator as the empty string.
  The validator is built from the auth token of the environment and asked once; it
  answers with a boolean or raises. In main.py the decorator line above \<open>webhook\<close>
  is commented out.
\<close>

type_synonym view = "request \<Rightarrow> world \<Rightarrow> (exn + response) \<times> world"

definition validate_twilio_request :: "services \<Rightarrow> view \<Rightarrow> view" where
  "validate_twilio_request sv f req w =
     (let twilio_signature = get_or (headers req) ''X-Twilio-Signature'' [];
          u = url req;
          form_data = form req
      in case validator_validate sv (getenv sv ''TWILIO_AUTH_TOKEN'') u form_data
                twilio_signature of
           Inl e \<Rightarrow> (Inl e, w)
         | Inr valid \<Rightarrow> if \<not> valid then (Inl (Aborted 403), w) else f req w)"

subsection \<open>The webhook\<close>

text \<open>
  The fields parsed at the top of the handler. A missing \<open>NumMedia\<close> is the default
  \<open>0\<close>, an integer already; a present one is a string and goes through \<open>int\<close>.
\<close>

definition sender_of :: "request \<Rightarrow> exn + string" where
  "sender_of req = py_index (py_split (get_or (req_values req) ''From'' []) CHR '':'') 1"

definition num_media_of :: "services \<Rightarrow> request \<Rightarrow> exn + int" where
  "num_media_of sv req =
     (case req_values req ''NumMedia'' of None \<Rightarrow> Inr 0 | Some s \<Rightarrow> builtin_int sv s)"

text \<open>
  The body of the inner \<open>try\<close>: download, transcribe, send, and only then remove the
  two temporary files.
\<close>

definition webhook_audio :: "services \<Rightarrow> string \<Rightarrow> string \<Rightarrow> world \<Rightarrow> (exn + unit) \<times> world" where
  "webhook_audio sv sender media_url w =
     (case download_audio sv media_url w of
        (Inl e, w1) \<Rightarrow> (Inl e, w1)
      | (Inr audio_file, w1) \<Rightarrow>
          (case transcribe_audio sv audio_file w1 of
             (Inl e, w2) \<Rightarrow> (Inl e, w2)
           | (Inr transcription, w2) \<Rightarrow>
               (let from_number = ''whatsapp:'' @ fmt_env (getenv sv ''TWILIO_WHATSAPP_NUMBER'');
                    to_number = ''whatsapp:'' @ sender;
                    w3 = w2\<lparr>calls := calls w2 @
                            [Messages_create transcription from_number to_number]\<rparr>
                in case messages_create sv transcription from_number to_number of
                     Inl e \<Rightarrow> (Inl e, w3)
                   | Inr message_sid \<Rightarrow>
                       (case os_remove ''temp_audio.ogg'' w3 of
                          Inl e \<Rightarrow> (Inl e, w3)
                        | Inr w4 \<Rightarrow>
                            (case os_remove ''temp_audio.wav'' w4 of
                               Inl e \<Rightarrow> (Inl e, w4)
                             | Inr w5 \<Rightarrow> (Inr (), w5))))))"

text \<open>
  The body of the outer \<open>try\<close>. \<open>Body\<close> is read into \<open>incoming_msg\<close> and not used
  again. An exception of the inner \<open>try\<close> is answered there with \<open>str(e), 500\<close>.
\<close>

definition webhook_try :: "services \<Rightarrow> view" where
  "webhook_try sv req w =
     (let incoming_msg = get_or (req_values req) ''Body'' []
      in case sender_of req of
           Inl e \<Rightarrow> (Inl e, w)
         | Inr sender \<Rightarrow>
             (case num_media_of sv req of
                Inl e \<Rightarrow> (Inl e, w)
              | Inr num_media \<Rightarrow>
                  if num_media > 0 then
                    (let media_type = get_or (req_values req) ''MediaContentType0'' []
                     in if py_in ''audio'' media_type then
                          (let media_url = get_or (req_values req) ''MediaUrl0'' []
                           in case webhook_audio sv sender media_url w of
                                (Inl e, w') \<Rightarrow> (Inr (Str_of e, 500), w')
                              | (Inr _, w') \<Rightarrow> (Inr (Text ''OK'', 200), w'))
                        else (Inr (Text ''OK'', 200), w))
                  else (Inr (Text ''OK'', 200), w)))"

text \<open>
  \<open>webhook()\<close>: the outer \<open>except Exception\<close> answers whatever the body raised with
  \<open>str(e), 500\<close>.
\<close>

definition webhook :: "services \<Rightarrow> view" where
  "webhook sv req w =
     (case webhook_try sv req w of
        (Inl e, w') \<Rightarrow> (Inr (Str_of e, 500), w')
      | (Inr r, w') \<Rightarrow> (Inr r, w'))"

subsection \<open>The status callback\<close>

text \<open>\<open>message_status()\<close>: reads two fields with defaults, logs them, answers OK.\<close>

definition message_status_try :: "services \<Rightarrow> view" where
  "message_status_try sv req w =
     (let message_sid = get_or (req_values req) ''MessageSid'' [];
          message_status = get_or (req_values req) ''MessageStatus'' []
      in (Inr (Text ''OK'', 200), w))"

definition message_status :: "services \<Rightarrow> view" where
  "message_status sv req w =
     (case message_status_try sv req w of
        (Inl e, w') \<Rightarrow> (Inr (Str_of e, 500), w')
      | (Inr r, w') \<Rightarrow> (Inr r, w'))"

subsection \<open>A concrete setting for evaluation\<close>

text \<open>
  Services in which every stage works: the media URL answers 200 with some bytes, the
  decoder and the encoder return data, the model returns a transcript, and the send
  call returns a message id. For \<open>int\<close> this setting holds a table, not the function:
  the literals \<open>0\<close> and \<open>1\<close> that the requests below carry have their values, and
  every other string is refused, as \<open>int\<close> refuses the word \<open>one\<close>; the requests
  below carry no other count. Variants replace one stage: the model raises, the media
  URL answers 404 or 300, or the GET itself raises.
\<close>

definition env0 :: "string \<rightharpoonup> string" where
  "env0 = [''TWILIO_ACCOUNT_SID'' \<mapsto> ''AC1'', ''TWILIO_AUTH_TOKEN'' \<mapsto> ''tok'',
           ''TWILIO_WHATSAPP_NUMBER'' \<mapsto> ''+14155238886'']"

definition sv_ok :: services where
  "sv_ok = \<lparr>getenv = env0,
            builtin_int = (\<lambda>s. if s = ''0'' then Inr 0 else if s = ''1'' then Inr 1
                                else Inl (ValueError s)),
            requests_get = (\<lambda>u a. Inr \<lparr>status_code = 200, content = ''OggS''\<rparr>),
            from_ogg = (\<lambda>d. Inr ''pcm''),
            export_wav = (\<lambda>a. Inr ''RIFF''),
            model_transcribe = (\<lambda>p d l t. Inr ''shalom''),
            messages_create = (\<lambda>b f t. Inr ''SM1''),
            validator_validate = (\<lambda>tok u fm sg. Inr (sg = ''good''))\<rparr>"

definition sv_no_transcript :: services where
  "sv_no_transcript =
     sv_ok\<lparr>model_transcribe := (\<lambda>p d l t. Inl (LibraryError ''model failed''))\<rparr>"

definition sv_http_404 :: services where
  "sv_http_404 =
     sv_ok\<lparr>requests_get := (\<lambda>u a. Inr \<lparr>status_code = 404, content = ''not found''\<rparr>)\<rparr>"

definition sv_http_300 :: services where
  "sv_http_300 =
     sv_ok\<lparr>requests_get := (\<lambda>u a. Inr \<lparr>status_code = 300, content = ''OggS''\<rparr>)\<rparr>"

definition sv_unreachable :: services where
  "sv_unreachable =
     sv_ok\<lparr>requests_get := (\<lambda>u a. Inl (LibraryError ''connection refused''))\<rparr>"

definition w0 :: world where
  "w0 = \<lparr>fs = Map.empty, calls = []\<rparr>"

definition req_of :: "(string \<rightharpoonup> string) \<Rightarrow> request" where
  "req_of fm = \<lparr>url = ''https://host/webhook'', headers = Map.empty, args = Map.empty, form = fm\<rparr>"

definition voice_note :: request where
  "voice_note = req_of [''From'' \<mapsto> ''whatsapp:+15550001'', ''NumMedia'' \<mapsto> ''1'',
                        ''MediaContentType0'' \<mapsto> ''audio/ogg'',
                        ''MediaUrl0'' \<mapsto> ''https://api.twilio.com/m/1'']"

text \<open>
  Requests used below: a text message, the same without a sender, the same without a
  media count, a picture, a picture with a media count that is no number, and the voice
  note with a message text.
\<close>

definition no_count :: request where
  "no_count = req_of [''From'' \<mapsto> ''whatsapp:+15550001'', ''Body'' \<mapsto> ''hello'']"

definition text_only :: request where
  "text_only = req_of [''From'' \<mapsto> ''whatsapp:+15550001'', ''NumMedia'' \<mapsto> ''0'',
                       ''Body'' \<mapsto> ''hello'']"

definition no_sender :: request where
  "no_sender = req_of [''NumMedia'' \<mapsto> ''0'', ''Body'' \<mapsto> ''hello'']"

definition picture :: request where
  "picture = req_of [''From'' \<mapsto> ''whatsapp:+15550001'', ''NumMedia'' \<mapsto> ''1'',
                     ''MediaContentType0'' \<mapsto> ''image/png'',
                     ''MediaUrl0'' \<mapsto> ''https://api.twilio.com/m/2'']"

definition picture_bad_count :: request where
  "picture_bad_count = req_of [''From'' \<mapsto> ''whatsapp:+15550001'', ''NumMedia'' \<mapsto> ''one'',
                               ''MediaContentType0'' \<mapsto> ''image/png'']"

definition voice_note_saying :: "string \<Rightarrow> request" where
  "voice_note_saying b = voice_note\<lparr>form := (form voice_note)(''Body'' \<mapsto> b)\<rparr>"

section \<open>Properties\<close>

subsection \<open>Facts about the built-ins and the helpers\<close>

lemma py_split_nonempty: "py_split s c \<noteq> []"
  by (induction s) (auto split: list.splits)

lemma py_split_length: "length (py_split s c) = Suc (length (filter (\<lambda>x. x = c) s))"
  by (induction s) (auto split: list.splits simp: py_split_nonempty)

lemma py_split_has_second: "1 < length (py_split s c) \<longleftrightarrow> c \<in> set s"
  by (simp add: py_split_length filter_empty_conv)

lemma sender_of_IndexError:
  "CHR '':'' \<notin> set (get_or (req_values req) ''From'' []) \<Longrightarrow> sender_of req = Inl IndexError"
  using py_split_has_second [of "get_or (req_values req) ''From'' []" "CHR '':''"]
  by (simp add: sender_of_def py_index_def)

lemma sender_of_Inr:
  "CHR '':'' \<in> set (get_or (req_values req) ''From'' []) \<Longrightarrow>
     sender_of req = Inr (py_split (get_or (req_values req) ''From'' []) CHR '':'' ! 1)"
  using py_split_has_second [of "get_or (req_values req) ''From'' []" "CHR '':''"]
  by (simp add: sender_of_def py_index_def)


lemma download_audio_path: "fst (download_audio sv u w) = Inr p \<Longrightarrow> p = ''temp_audio.wav''"
  by (auto simp: download_audio_def Let_def read_file_def split: sum.splits)




lemma webhook_reaches_audio:
  "sender_of req = Inr sender \<Longrightarrow> num_media_of sv req = Inr n \<Longrightarrow> 0 < n \<Longrightarrow>
   py_in ''audio'' (get_or (req_values req) ''MediaContentType0'' []) \<Longrightarrow>
   webhook sv req w =
     (case webhook_audio sv sender (get_or (req_values req) ''MediaUrl0'' []) w of
        (Inl e, w') \<Rightarrow> (Inr (Str_of e, 500), w')
      | (Inr _, w') \<Rightarrow> (Inr (Text ''OK'', 200), w'))"
  by (simp add: webhook_def webhook_try_def Let_def split: prod.splits sum.splits)

text \<open>When the inner \<open>try\<close> runs to its end, both temporary files are gone.\<close>

lemma webhook_audio_success_removes_temp_files:
  "webhook_audio sv sender u w = (Inr x, w') \<Longrightarrow>
     fs w' ''temp_audio.ogg'' = None \<and> fs w' ''temp_audio.wav'' = None"
  by (auto simp: webhook_audio_def Let_def os_remove_def split: prod.splits sum.splits if_splits)

text \<open>The definitions unfolded to evaluate a handler on a concrete request.\<close>

lemmas eval_defs =
  webhook_def webhook_try_def webhook_audio_def download_audio_def transcribe_audio_def
  sender_of_def num_media_of_def req_values_def get_or_def voice_note_def req_of_def
  sv_no_transcript_def sv_http_404_def sv_http_300_def sv_unreachable_def sv_ok_def w0_def
  env0_def py_index_def raise_for_status_def read_file_def os_remove_def fmt_env_def
  text_only_def no_sender_def no_count_def picture_def picture_bad_count_def
  voice_note_saying_def

subsection \<open>Cleanup of the temporary files\<close>

text \<open>
  Claim C1 says that after every run of the audio pipeline, successful or failed, neither
  temporary file remains. The two \<open>os.remove\<close> calls stand at the end of the inner
  \<open>try\<close>, so only a run in which download, transcription and send all succeed reaches
  them (\<open>webhook_audio_success_removes_temp_files\<close>). The run below downloads and
  converts the voice note, then the model raises: the handler answers 500 and both
  \<open>temp_audio.ogg\<close> and \<open>temp_audio.wav\<close> are still on disk.
\<close>

theorem webhook_failed_run_keeps_temp_files:
  "fst (webhook sv_no_transcript voice_note w0) = Inr (Str_of (LibraryError ''model failed''), 500)
   \<and> fs (snd (webhook sv_no_transcript voice_note w0)) ''temp_audio.ogg'' = Some ''OggS''
   \<and> fs (snd (webhook sv_no_transcript voice_note w0)) ''temp_audio.wav'' = Some ''RIFF''"
  by (simp add: eval_defs)

subsection \<open>The signature guard\<close>

text \<open>
  Claim C2: a handler wrapped by \<open>validate_twilio_request\<close> is not run when the
  validator answers \<open>False\<close>. Whatever the wrapped view \<open>f\<close> is, the outcome is
  the 403 abort and the world is the one the request arrived in. A missing
  \<open>X-Twilio-Signature\<close> header raises nothing: the validator is asked about the empty
  signature, and its rejection gives the same 403. The validator itself belongs to the
  Twilio SDK and is a parameter here.
\<close>

theorem validate_twilio_request_rejects:
  "(validator_validate sv (getenv sv ''TWILIO_AUTH_TOKEN'') (url req) (form req)
        (get_or (headers req) ''X-Twilio-Signature'' []) = Inr False \<longrightarrow>
      validate_twilio_request sv f req w = (Inl (Aborted 403), w) \<and>
      http_status (fst (validate_twilio_request sv f req w)) = 403)
   \<and> (headers req ''X-Twilio-Signature'' = None \<and>
       validator_validate sv (getenv sv ''TWILIO_AUTH_TOKEN'') (url req) (form req) [] = Inr False \<longrightarrow>
      validate_twilio_request sv f req w = (Inl (Aborted 403), w))"
  by (simp add: validate_twilio_request_def get_or_def)

text \<open>
  The voice note carries no signature header and the validator of \<open>sv_ok\<close> accepts
  only one signature: the guarded webhook is answered 403 and makes no call, where the
  unguarded one would have made some.
\<close>

theorem validate_twilio_request_rejects_witness:
  "validate_twilio_request sv_ok (webhook sv_ok) voice_note w0 = (Inl (Aborted 403), w0)
   \<and> http_status (fst (validate_twilio_request sv_ok (webhook sv_ok) voice_note w0)) = 403
   \<and> headers voice_note ''X-Twilio-Signature'' = None
   \<and> calls (snd (webhook sv_ok voice_note w0)) \<noteq> []"
proof -
  have h: "validator_validate sv_ok (getenv sv_ok ''TWILIO_AUTH_TOKEN'') (url voice_note)
             (form voice_note) (get_or (headers voice_note) ''X-Twilio-Signature'' []) = Inr False"
    by (simp add: sv_ok_def voice_note_def req_of_def get_or_def)
  have c: "calls (snd (webhook sv_ok voice_note w0)) \<noteq> []"
    by (simp add: eval_defs)
  have n: "headers voice_note ''X-Twilio-Signature'' = None"
    by (simp add: voice_note_def req_of_def)
  from validate_twilio_request_rejects [of sv_ok voice_note "webhook sv_ok" w0] h c n
  show ?thesis by blast
qed

subsection \<open>A failed download\<close>




subsection \<open>Messages without audio\<close>

text \<open>
  The sender is parsed before the media count is looked at. A request with
  \<open>NumMedia = 0\<close> and no \<open>From\<close> field is answered 500 (IndexError), not 200.
\<close>

theorem webhook_no_media_no_sender_counterexample:
  "num_media_of sv_ok no_sender = Inr 0
   \<and> fst (webhook sv_ok no_sender w0) = Inr (Str_of IndexError, 500)
   \<and> http_status (fst (webhook sv_ok no_sender w0)) = 500"
  by (simp add: eval_defs)

text \<open>
  Claim C4, amended: for every request whose media count is 0 the handler makes no
  outbound call and leaves the file system alone (the world is unchanged), and it
  answers 200 OK when the \<open>From\<close> field contains a colon; without one the answer is the
  500 of the IndexError.
\<close>

theorem webhook_no_media:
  assumes "num_media_of sv req = Inr 0"
  shows "snd (webhook sv req w) = w
       \<and> (CHR '':'' \<in> set (get_or (req_values req) ''From'' []) \<longrightarrow>
            fst (webhook sv req w) = Inr (Text ''OK'', 200))
       \<and> (CHR '':'' \<notin> set (get_or (req_values req) ''From'' []) \<longrightarrow>
            fst (webhook sv req w) = Inr (Str_of IndexError, 500))"
proof (cases "CHR '':'' \<in> set (get_or (req_values req) ''From'' [])")
  case True
  from sender_of_Inr [OF True] assms show ?thesis
    using True by (simp add: webhook_def webhook_try_def)
next
  case False
  from sender_of_IndexError [OF False] show ?thesis
    using False by (simp add: webhook_def webhook_try_def)
qed

theorem webhook_no_media_witness:
  "snd (webhook sv_ok text_only w0) = w0
   \<and> fst (webhook sv_ok text_only w0) = Inr (Text ''OK'', 200)
   \<and> snd (webhook sv_ok no_sender w0) = w0"
proof -
  have n: "num_media_of sv_ok text_only = Inr 0" by (simp add: eval_defs)
  have n': "num_media_of sv_ok no_sender = Inr 0" by (simp add: eval_defs)
  have c: "CHR '':'' \<in> set (get_or (req_values text_only) ''From'' [])"
    by (simp add: eval_defs)
  from webhook_no_media [OF n, of w0] webhook_no_media [OF n', of w0] c
  show ?thesis by blast
qed

text \<open>
  Likewise the media count is parsed before the content type is looked at. A picture
  whose \<open>NumMedia\<close> is the word \<open>one\<close> is answered 500 (ValueError), not 200.
\<close>

theorem webhook_not_audio_bad_count_counterexample:
  "\<not> py_in ''audio'' (get_or (req_values picture_bad_count) ''MediaContentType0'' [])
   \<and> fst (webhook sv_ok picture_bad_count w0) = Inr (Str_of (ValueError ''one''), 500)
   \<and> http_status (fst (webhook sv_ok picture_bad_count w0)) = 500"
  by (simp add: eval_defs)

text \<open>
  Claim C6, amended: for every request whose \<open>MediaContentType0\<close> does not contain
  \<open>audio\<close> the handler makes no outbound call and leaves the file system alone, and it
  answers 200 OK when the \<open>From\<close> field contains a colon and \<open>NumMedia\<close> is absent or
  accepted by \<open>int\<close>; otherwise the answer is the 500 of the parsing error.
\<close>

theorem webhook_not_audio:
  assumes "\<not> py_in ''audio'' (get_or (req_values req) ''MediaContentType0'' [])"
  shows "snd (webhook sv req w) = w
       \<and> (\<forall>n. CHR '':'' \<in> set (get_or (req_values req) ''From'' []) \<and> num_media_of sv req = Inr n \<longrightarrow>
            fst (webhook sv req w) = Inr (Text ''OK'', 200))
       \<and> (CHR '':'' \<notin> set (get_or (req_values req) ''From'' []) \<longrightarrow>
            fst (webhook sv req w) = Inr (Str_of IndexError, 500))
       \<and> (\<forall>e. CHR '':'' \<in> set (get_or (req_values req) ''From'' []) \<and> num_media_of sv req = Inl e \<longrightarrow>
            fst (webhook sv req w) = Inr (Str_of e, 500))"
proof -
  have a: "snd (webhook sv req w) = w"
    using assms by (simp add: webhook_def webhook_try_def split: sum.splits)
  have b: "fst (webhook sv req w) = Inr (Text ''OK'', 200)"
    if "CHR '':'' \<in> set (get_or (req_values req) ''From'' [])" "num_media_of sv req = Inr n" for n
    using sender_of_Inr [OF that(1)] that(2) assms by (simp add: webhook_def webhook_try_def)
  have c: "fst (webhook sv req w) = Inr (Str_of IndexError, 500)"
    if "CHR '':'' \<notin> set (get_or (req_values req) ''From'' [])"
    using sender_of_IndexError [OF that] by (simp add: webhook_def webhook_try_def)
  have d: "fst (webhook sv req w) = Inr (Str_of e, 500)"
    if "CHR '':'' \<in> set (get_or (req_values req) ''From'' [])" "num_media_of sv req = Inl e" for e
    using sender_of_Inr [OF that(1)] that(2) by (simp add: webhook_def webhook_try_def)
  show ?thesis using a b c d by blast
qed

theorem webhook_not_audio_witness:
  "snd (webhook sv_ok picture w0) = w0 \<and> fst (webhook sv_ok picture w0) = Inr (Text ''OK'', 200)"
proof -
  have a: "\<not> py_in ''audio'' (get_or (req_values picture) ''MediaContentType0'' [])"
    by (simp add: eval_defs)
  have c: "CHR '':'' \<in> set (get_or (req_values picture) ''From'' [])"
    by (simp add: eval_defs)
  have n: "num_media_of sv_ok picture = Inr 1" by (simp add: eval_defs)
  from webhook_not_audio [OF a, of sv_ok w0] c n show ?thesis by blast
qed

subsection \<open>The reply\<close>



subsection \<open>Errors at the handler boundary\<close>

text \<open>
  Not every missing field is an error for the handler: \<open>NumMedia\<close> has the default
  \<open>0\<close>. A text message that carries no \<open>NumMedia\<close> at all is answered 200 OK.
\<close>

theorem webhook_missing_count_counterexample:
  "req_values no_count ''NumMedia'' = None
   \<and> webhook sv_ok no_count w0 = (Inr (Text ''OK'', 200), w0)"
  by (simp add: eval_defs)

text \<open>
  Claim C7, amended: a request whose \<open>From\<close> field has no colon (the field may be
  missing altogether) is answered 500 with the text of the IndexError; a request whose
  \<open>NumMedia\<close> is present and is refused by \<open>int\<close> is answered 500, with the text of
  the exception \<open>int\<close> raised when the sender could be parsed. In both cases the
  handler returns a response (it does not raise) and nothing else happens. A missing
  \<open>NumMedia\<close> is no error: it is read as 0, and with a well-formed \<open>From\<close> the answer
  is 200 OK.
\<close>

theorem webhook_malformed_is_500:
  "(CHR '':'' \<notin> set (get_or (req_values req) ''From'' []) \<longrightarrow>
      webhook sv req w = (Inr (Str_of IndexError, 500), w))
   \<and> (\<forall>s e. CHR '':'' \<in> set (get_or (req_values req) ''From'' []) \<and>
             req_values req ''NumMedia'' = Some s \<and> builtin_int sv s = Inl e \<longrightarrow>
      webhook sv req w = (Inr (Str_of e, 500), w))
   \<and> (\<forall>s e. req_values req ''NumMedia'' = Some s \<and> builtin_int sv s = Inl e \<longrightarrow>
      http_status (fst (webhook sv req w)) = 500 \<and> snd (webhook sv req w) = w)
   \<and> (CHR '':'' \<in> set (get_or (req_values req) ''From'' []) \<and>
       req_values req ''NumMedia'' = None \<longrightarrow>
      webhook sv req w = (Inr (Text ''OK'', 200), w))"
proof -
  have a: "webhook sv req w = (Inr (Str_of IndexError, 500), w)"
    if "CHR '':'' \<notin> set (get_or (req_values req) ''From'' [])"
    using sender_of_IndexError [OF that] by (simp add: webhook_def webhook_try_def)
  have b: "webhook sv req w = (Inr (Str_of e, 500), w)"
    if "CHR '':'' \<in> set (get_or (req_values req) ''From'' [])"
       "req_values req ''NumMedia'' = Some s" "builtin_int sv s = Inl e" for s e
    using sender_of_Inr [OF that(1)] that(2,3)
    by (simp add: webhook_def webhook_try_def num_media_of_def)
  have c: "http_status (fst (webhook sv req w)) = 500 \<and> snd (webhook sv req w) = w"
    if "req_values req ''NumMedia'' = Some s" "builtin_int sv s = Inl e" for s e
    using a b [OF _ that] by (cases "CHR '':'' \<in> set (get_or (req_values req) ''From'' [])") simp_all
  have d: "webhook sv req w = (Inr (Text ''OK'', 200), w)"
    if "CHR '':'' \<in> set (get_or (req_values req) ''From'' [])"
       "req_values req ''NumMedia'' = None"
    using sender_of_Inr [OF that(1)] that(2)
    by (simp add: webhook_def webhook_try_def num_media_of_def)
  show ?thesis using a b c d by blast
qed

theorem webhook_malformed_is_500_witness:
  "webhook sv_ok no_sender w0 = (Inr (Str_of IndexError, 500), w0)
   \<and> webhook sv_ok picture_bad_count w0 = (Inr (Str_of (ValueError ''one''), 500), w0)
   \<and> webhook sv_no_transcript no_count w0 = (Inr (Text ''OK'', 200), w0)"
proof -
  have a: "CHR '':'' \<notin> set (get_or (req_values no_sender) ''From'' [])"
    by (simp add: eval_defs)
  have b: "CHR '':'' \<in> set (get_or (req_values picture_bad_count) ''From'' [])"
    by (simp add: eval_defs)
  have c: "req_values picture_bad_count ''NumMedia'' = Some ''one''"
    by (simp add: eval_defs)
  have d: "builtin_int sv_ok ''one'' = Inl (ValueError ''one'')"
    by (simp add: eval_defs)
  have e: "CHR '':'' \<in> set (get_or (req_values no_count) ''From'' [])"
    by (simp add: eval_defs)
  have f: "req_values no_count ''NumMedia'' = None"
    by (simp add: eval_defs)
  from webhook_malformed_is_500 [of no_sender sv_ok w0]
       webhook_malformed_is_500 [of picture_bad_count sv_ok w0]
       webhook_malformed_is_500 [of no_count sv_no_transcript w0] a b c d e f
  show ?thesis by blast
qed

text \<open>
  Claim C8: the handler never raises. Its outcome is always a response, with status
  200 or 500; an exception leaving the body of the outer \<open>try\<close> (the two parsing
  errors) becomes the 500 response with its text, and so does an exception of any
  stage of the audio pipeline (download, decoding, transcription, send, removal).
\<close>

theorem webhook_catches_every_error:
  "(\<exists>b s. fst (webhook sv req w) = Inr (b, s) \<and> (s = 200 \<or> s = 500))
   \<and> (\<forall>e. fst (webhook_try sv req w) = Inl e \<longrightarrow> fst (webhook sv req w) = Inr (Str_of e, 500))
   \<and> (\<forall>sender n e. sender_of req = Inr sender \<and> num_media_of sv req = Inr n \<and> 0 < n \<and>
         py_in ''audio'' (get_or (req_values req) ''MediaContentType0'' []) \<and>
         fst (webhook_audio sv sender (get_or (req_values req) ''MediaUrl0'' []) w) = Inl e \<longrightarrow>
         fst (webhook sv req w) = Inr (Str_of e, 500))"
proof -
  have a: "\<exists>b s. fst (webhook sv req w) = Inr (b, s) \<and> (s = 200 \<or> s = 500)"
    by (auto simp: webhook_def webhook_try_def Let_def split: prod.splits sum.splits)
  have b: "fst (webhook sv req w) = Inr (Str_of e, 500)" if "fst (webhook_try sv req w) = Inl e" for e
    using that by (cases "webhook_try sv req w") (simp add: webhook_def)
  have c: "fst (webhook sv req w) = Inr (Str_of e, 500)"
    if "sender_of req = Inr sender" "num_media_of sv req = Inr n" "0 < n"
       "py_in ''audio'' (get_or (req_values req) ''MediaContentType0'' [])"
       "fst (webhook_audio sv sender (get_or (req_values req) ''MediaUrl0'' []) w) = Inl e"
    for sender n e
    using that(5) unfolding webhook_reaches_audio [OF that(1-4)]
    by (cases "webhook_audio sv sender (get_or (req_values req) ''MediaUrl0'' []) w") simp
  show ?thesis using a b c by blast
qed

theorem webhook_catches_every_error_witness:
  "fst (webhook sv_no_transcript voice_note w0) = Inr (Str_of (LibraryError ''model failed''), 500)
   \<and> fst (webhook sv_ok no_sender w0) = Inr (Str_of IndexError, 500)"
proof -
  have s: "sender_of voice_note = Inr ''+15550001''" by (simp add: eval_defs)
  have n: "num_media_of sv_no_transcript voice_note = Inr 1" by (simp add: eval_defs)
  have a: "py_in ''audio'' (get_or (req_values voice_note) ''MediaContentType0'' [])"
    by (simp add: eval_defs)
  have f: "fst (webhook_audio sv_no_transcript ''+15550001''
                 (get_or (req_values voice_note) ''MediaUrl0'' []) w0)
             = Inl (LibraryError ''model failed'')"
    by (simp add: eval_defs)
  have t: "fst (webhook_try sv_ok no_sender w0) = Inl IndexError"
    by (simp add: eval_defs)
  from webhook_catches_every_error [of sv_no_transcript voice_note w0]
       webhook_catches_every_error [of sv_ok no_sender w0] s n a f t
  show ?thesis by force
qed

subsection \<open>The status callback\<close>

text \<open>
  Claim C9: whatever the request holds and whatever the state is, \<open>message_status\<close>
  answers 200 OK and returns the world as it found it.
\<close>

theorem message_status_ok: "message_status sv req w = (Inr (Text ''OK'', 200), w)"
  by (simp add: message_status_def message_status_try_def)

subsection \<open>The message text\<close>

text \<open>
  Claim C10: two requests whose values agree on every field other than \<open>Body\<close> get
  the same response and leave the same world behind, calls and files alike.
\<close>

theorem webhook_ignores_body:
  assumes "\<forall>k. k \<noteq> ''Body'' \<longrightarrow> req_values r1 k = req_values r2 k"
  shows "webhook sv r1 w = webhook sv r2 w"
proof -
  have e1: "sender_of r1 = sender_of r2"
    using assms by (simp add: sender_of_def get_or_def)
  have e2: "num_media_of sv r1 = num_media_of sv r2"
    using assms by (simp add: num_media_of_def)
  have e3: "get_or (req_values r1) ''MediaContentType0'' [] =
            get_or (req_values r2) ''MediaContentType0'' []"
    using assms by (simp add: get_or_def)
  have e4: "get_or (req_values r1) ''MediaUrl0'' [] = get_or (req_values r2) ''MediaUrl0'' []"
    using assms by (simp add: get_or_def)
  show ?thesis
    unfolding webhook_def webhook_try_def Let_def e1 e2 e3 e4 ..
qed

theorem webhook_ignores_body_witness:
  "webhook sv_ok (voice_note_saying ''hello'') w0 = webhook sv_ok (voice_note_saying ''STOP'') w0"
proof -
  have h: "\<forall>k. k \<noteq> ''Body'' \<longrightarrow>
             req_values (voice_note_saying ''hello'') k = req_values (voice_note_saying ''STOP'') k"
    by (simp add: req_values_def voice_note_saying_def voice_note_def req_of_def)
  from webhook_ignores_body [OF h] show ?thesis .
qed

end
